theory Spec2Isabelle
  imports Complex_Main "HOL-Library.Sublist"
begin

section \<open>Python strings and integers\<close>

text \<open>
  A Python \<open>str\<close> is modelled as a \<open>string\<close> whose characters are code points below
  256. In that range the characters \<open>str.strip()\<close> and \<open>int()\<close> treat as white space
  are tab to carriage return, the four separators 28 to 31, the space, NEL (133) and the
  no-break space (160); the only decimal digits are \<open>0\<close> to \<open>9\<close>.
\<close>

datatype py_error =
    ValueError | IndexError | FileNotFoundError | OSError
  | NoSectionError | NoOptionError | InterpolationError | ParsingError
  | OverflowError | WebDriverException | FakeUserAgentError

definition is_space :: "char \<Rightarrow> bool" where
  "is_space c = (let n = (of_char c :: nat) in
     (9 \<le> n \<and> n \<le> 13) \<or> (28 \<le> n \<and> n \<le> 32) \<or> n = 133 \<or> n = 160)"

definition py_strip :: "string \<Rightarrow> string" where
  "py_strip s = rev (dropWhile is_space (rev (dropWhile is_space s)))"

definition is_digit :: "char \<Rightarrow> bool" where
  "is_digit c = (let n = (of_char c :: nat) in 48 \<le> n \<and> n \<le> 57)"

definition digit_val :: "char \<Rightarrow> int" where
  "digit_val c = int (of_char c) - 48"

text \<open>
  \<open>int(s)\<close> in base 10: surrounding white space, one optional sign, then decimal digits
  in which single underscores may stand between two digits. \<open>int_body\<close> reads the digits
  once the first character is known to be a digit.
\<close>

fun int_body :: "int \<Rightarrow> string \<Rightarrow> int option" where
  "int_body acc [] = Some acc"
| "int_body acc [c] = (if is_digit c then Some (10 * acc + digit_val c) else None)"
| "int_body acc (c # d # cs) =
     (if is_digit c then int_body (10 * acc + digit_val c) (d # cs)
      else if c = CHR ''_'' \<and> is_digit d then int_body acc (d # cs)
      else None)"

text \<open>
  CPython refuses to convert a decimal string of more than \<open>sys.int_info.default_max_str_digits\<close>
  digits (4300 unless reconfigured); signs and underscores are not counted.
\<close>

definition int_max_str_digits :: nat where
  "int_max_str_digits = 4300"

definition int_unsigned :: "string \<Rightarrow> int option" where
  "int_unsigned s =
     (case s of
        [] \<Rightarrow> None
      | c # cs \<Rightarrow>
          if \<not> is_digit c then None
          else if int_max_str_digits < length (filter is_digit s) then None
          else int_body 0 s)"

definition py_int :: "string \<Rightarrow> int option" where
  "py_int s =
     (case py_strip s of
        [] \<Rightarrow> None
      | c # cs \<Rightarrow>
          if c = CHR ''-'' then map_option uminus (int_unsigned cs)
          else if c = CHR ''+'' then int_unsigned cs
          else int_unsigned (c # cs))"

definition int_of_str :: "string \<Rightarrow> py_error + int" where
  "int_of_str s = (case py_int s of None \<Rightarrow> Inl ValueError | Some n \<Rightarrow> Inr n)"

text \<open>\<open>str(n)\<close> for an integer, as the f-strings of the source format a port.\<close>

function digits_of :: "nat \<Rightarrow> string" where
  "digits_of n =
     (if n < 10 then [''0123456789'' ! n]
      else digits_of (n div 10) @ [''0123456789'' ! (n mod 10)])"
  by pat_completeness auto
termination
  by (relation "measure (\<lambda>n. n)") auto

declare digits_of.simps [simp del]

definition py_str :: "int \<Rightarrow> string" where
  "py_str i = (if i < 0 then CHR ''-'' # digits_of (nat (- i)) else digits_of (nat i))"

text \<open>
  \<open>s.split(sep)\<close> for a non-empty separator: the text is scanned from the left, every
  occurrence of \<open>sep\<close> closes the current field and the scan resumes behind it. The result
  is never empty. Both calls in the source pass a non-empty literal (Python raises
  \<open>ValueError\<close> on an empty separator).
\<close>

function py_split :: "string \<Rightarrow> string \<Rightarrow> string list" where
  "py_split sep [] = [[]]"
| "py_split sep (c # cs) =
     (if sep \<noteq> [] \<and> prefix sep (c # cs)
      then [] # py_split sep (drop (length sep) (c # cs))
      else (case py_split sep cs of [] \<Rightarrow> [[c]] | w # ws \<Rightarrow> (c # w) # ws))"
  by pat_completeness auto
termination
  by (relation "measure (\<lambda>(sep, s). length s)") auto

text \<open>\<open>sub in s\<close>: \<open>sub\<close> occurs in \<open>s\<close> as a contiguous piece.\<close>

fun py_in :: "string \<Rightarrow> string \<Rightarrow> bool" where
  "py_in sub [] = (sub = [])"
| "py_in sub (c # cs) = (prefix sub (c # cs) \<or> py_in sub cs)"

text \<open>\<open>xs[i]\<close> for a non-negative index: out of range raises \<open>IndexError\<close>.\<close>

definition py_get :: "'a list \<Rightarrow> nat \<Rightarrow> py_error + 'a" where
  "py_get xs i = (if i < length xs then Inr (xs ! i) else Inl IndexError)"

section \<open>Proxy records (proxy\_manager.py)\<close>

text \<open>
  A proxy is the dictionary built by \<open>_parse_proxy_line\<close>: the keys \<open>host\<close>, \<open>port\<close> and
  \<open>protocol\<close> are always present, \<open>username\<close> and \<open>password\<close> may be absent.
\<close>

record proxy =
  host :: string
  port :: int
  protocol :: string
  username :: "string option"
  password :: "string option"

text \<open>
  The body of the \<open>try\<close> block of \<open>_parse_proxy_line\<close>. \<open>Inl\<close> is an exception raised
  inside it, \<open>Inr None\<close> is the fall-through when the line has fewer than two fields.
\<close>

definition parse_proxy_try :: "string \<Rightarrow> py_error + proxy option" where
  "parse_proxy_try line =
     (let parts = py_split '':'' line in
      if 2 \<le> length parts then
        (case (if py_in ''//'' (parts ! 0)
               then (case py_get (py_split ''//'' (parts ! 0)) 0 of
                       Inl e \<Rightarrow> Inl e
                     | Inr pr \<Rightarrow>
                        (case py_get (py_split ''//'' (parts ! 0)) 1 of
                           Inl e \<Rightarrow> Inl e
                         | Inr h \<Rightarrow>
                            (case int_of_str (parts ! 1) of
                               Inl e \<Rightarrow> Inl e
                             | Inr n \<Rightarrow> Inr (pr, h, n))))
               else (case int_of_str (parts ! 1) of
                       Inl e \<Rightarrow> Inl e
                     | Inr n \<Rightarrow> Inr (''http'', parts ! 0, n)))
         of
           Inl e \<Rightarrow> Inl e
         | Inr (pr, h, n) \<Rightarrow>
             Inr (Some \<lparr>host = h, port = n, protocol = pr,
                        username = (if 4 \<le> length parts then Some (parts ! 2) else None),
                        password = (if 4 \<le> length parts then Some (parts ! 3) else None)\<rparr>))
      else Inr None)"

text \<open>\<open>_parse_proxy_line\<close>: every exception of the body is logged and turned into \<open>None\<close>.\<close>

definition parse_proxy_line :: "string \<Rightarrow> proxy option" where
  "parse_proxy_line line = (case parse_proxy_try line of Inl e \<Rightarrow> None | Inr r \<Rightarrow> r)"

definition proxy_key :: "proxy \<Rightarrow> string" where
  "proxy_key p = host p @ '':'' @ py_str (port p)"

definition format_proxy_url :: "proxy \<Rightarrow> string" where
  "format_proxy_url p =
     (case (username p, password p) of
        (Some u, Some w) \<Rightarrow>
          protocol p @ ''://'' @ u @ '':'' @ w @ ''@'' @ host p @ '':'' @ py_str (port p)
      | _ \<Rightarrow> protocol p @ ''://'' @ host p @ '':'' @ py_str (port p))"

section \<open>The proxy manager (proxy\_manager.py)\<close>

text \<open>
  \<open>ProxyManager\<close> holds the name of the proxy file (whatever the configuration getter
  returned), the loaded proxies, the proxies that passed a liveness test and the set of
  \<open>host:port\<close> keys that failed one.
\<close>

record proxy_manager =
  proxy_file :: "string option"
  proxies :: "proxy list"
  working_proxies :: "proxy list"
  failed_proxies :: "string set"

text \<open>
  The loop of \<open>load_proxies\<close> over the lines read from the file; the second argument is
  \<open>self.proxies\<close>, to which each parsed proxy is appended.
\<close>

fun load_lines :: "string list \<Rightarrow> proxy list \<Rightarrow> proxy list" where
  "load_lines [] ps = ps"
| "load_lines (l # ls) ps =
     (let line = py_strip l in
      if line \<noteq> [] \<and> \<not> prefix ''#'' line
      then (case parse_proxy_line line of
              Some p \<Rightarrow> load_lines ls (ps @ [p])
            | None \<Rightarrow> load_lines ls ps)
      else load_lines ls ps)"

text \<open>
  \<open>load_proxies\<close>: the first argument is what opening the file and \<open>readlines()\<close> yield,
  an exception or the lines. Both handlers only log.
\<close>

definition load_proxies :: "py_error + string list \<Rightarrow> proxy_manager \<Rightarrow> proxy_manager" where
  "load_proxies file pm =
     (case file of
        Inl e \<Rightarrow> pm
      | Inr lines \<Rightarrow> pm\<lparr>proxies := load_lines lines (proxies pm)\<rparr>)"

text \<open>\<open>ProxyManager.__init__\<close>.\<close>

definition new_proxy_manager :: "string option \<Rightarrow> py_error + string list \<Rightarrow> proxy_manager" where
  "new_proxy_manager name file =
     load_proxies file
       \<lparr>proxy_file = name, proxies = [], working_proxies = [], failed_proxies = {}\<rparr>"

text \<open>
  The entries the proxy file stands for, in the words of the specification: the stripped
  lines that are neither blank nor comments, each parsed, the unparsable ones dropped.
\<close>

definition parsed_entries :: "string list \<Rightarrow> proxy list" where
  "parsed_entries lines =
     List.map_filter parse_proxy_line
       (filter (\<lambda>s. s \<noteq> [] \<and> \<not> prefix ''#'' s) (map py_strip lines))"

text \<open>
  The environment of a run: \<open>draw t\<close> is the number behind the \<open>t\<close>-th call of
  \<open>random.choice\<close>, \<open>http_get t url\<close> is what the \<open>t\<close>-th liveness request through the proxy
  \<open>url\<close> yields, an exception or a status code.
\<close>

record net =
  draw :: "nat \<Rightarrow> nat"
  http_get :: "nat \<Rightarrow> string \<Rightarrow> py_error + nat"

definition random_choice :: "nat \<Rightarrow> 'a list \<Rightarrow> 'a" where
  "random_choice r xs = xs ! (r mod length xs)"

definition test_proxy :: "net \<Rightarrow> nat \<Rightarrow> proxy \<Rightarrow> bool" where
  "test_proxy w t p =
     (case http_get w t (format_proxy_url p) of
        Inr status \<Rightarrow> status = 200
      | Inl e \<Rightarrow> False)"

definition is_proxy_tested :: "proxy_manager \<Rightarrow> proxy \<Rightarrow> bool" where
  "is_proxy_tested pm p =
     (proxy_key p \<in> failed_proxies pm \<or> p \<in> set (working_proxies pm))"

definition available_proxies :: "proxy_manager \<Rightarrow> proxy list" where
  "available_proxies pm = filter (\<lambda>p. proxy_key p \<notin> failed_proxies pm) (proxies pm)"

text \<open>
  One activation of \<open>get_random_proxy\<close> at time \<open>t\<close>: \<open>Inl\<close> is a return (the value, the
  next time, the manager), \<open>Inr\<close> is the recursive call \<open>return self.get_random_proxy()\<close>
  with the state it starts from.
\<close>

definition get_random_proxy_step ::
  "net \<Rightarrow> nat \<Rightarrow> proxy_manager \<Rightarrow>
     (proxy option \<times> nat \<times> proxy_manager) + (nat \<times> proxy_manager)" where
  "get_random_proxy_step w t pm =
     (if proxies pm = [] then Inl (None, t, pm)
      else if available_proxies pm = [] then Inl (None, t, pm)
      else
        (let p = random_choice (draw w t) (available_proxies pm) in
         if \<not> is_proxy_tested pm p then
           (if test_proxy w t p
            then Inl (Some p, Suc t, pm\<lparr>working_proxies := working_proxies pm @ [p]\<rparr>)
            else Inr (Suc t, pm\<lparr>failed_proxies := insert (proxy_key p) (failed_proxies pm)\<rparr>))
         else Inl (Some p, Suc t, pm)))"

function get_random_proxy ::
  "net \<Rightarrow> nat \<Rightarrow> proxy_manager \<Rightarrow> proxy option \<times> nat \<times> proxy_manager" where
  "get_random_proxy w t pm =
     (case get_random_proxy_step w t pm of
        Inl r \<Rightarrow> r
      | Inr (t', pm') \<Rightarrow> get_random_proxy w t' pm')"
  by pat_completeness auto
termination
proof (relation "measure (\<lambda>(w, t, pm). length (available_proxies pm))")
  show "wf (measure (\<lambda>(w, t, pm). length (available_proxies pm)))"
    by simp
next
  fix w :: net and t :: nat and pm :: proxy_manager and x2 t' pm'
  assume step: "get_random_proxy_step w t pm = Inr x2" and x2: "(t', pm') = x2"
  define p where "p = random_choice (draw w t) (available_proxies pm)"
  from step x2 have ne: "available_proxies pm \<noteq> []"
    and pm': "pm' = pm\<lparr>failed_proxies := insert (proxy_key p) (failed_proxies pm)\<rparr>"
    by (auto simp: get_random_proxy_step_def Let_def p_def split: if_splits)
  from ne have mem: "p \<in> set (available_proxies pm)"
    by (simp add: p_def random_choice_def)
  have "available_proxies pm' =
          filter (\<lambda>q. proxy_key q \<noteq> proxy_key p) (available_proxies pm)"
    by (auto simp: available_proxies_def pm' intro: filter_cong)
  with mem have "length (available_proxies pm') < length (available_proxies pm)"
    by (simp add: length_filter_less)
  then show "((w, t', pm'), (w, t, pm)) \<in> measure (\<lambda>(w, t, pm). length (available_proxies pm))"
    by simp
qed

declare get_random_proxy.simps [simp del]

text \<open>
  The same function with the depth of its recursion counted: \<open>d\<close> is the number of
  recursive calls still allowed, and \<open>None\<close> means that one more was needed.
\<close>

fun get_random_proxy_bounded ::
  "nat \<Rightarrow> net \<Rightarrow> nat \<Rightarrow> proxy_manager \<Rightarrow> (proxy option \<times> nat \<times> proxy_manager) option" where
  "get_random_proxy_bounded 0 w t pm =
     (case get_random_proxy_step w t pm of
        Inl r \<Rightarrow> Some r
      | Inr (t', pm') \<Rightarrow> None)"
| "get_random_proxy_bounded (Suc d) w t pm =
     (case get_random_proxy_step w t pm of
        Inl r \<Rightarrow> Some r
      | Inr (t', pm') \<Rightarrow> get_random_proxy_bounded d w t' pm')"

definition mark_proxy_failed :: "proxy \<Rightarrow> proxy_manager \<Rightarrow> proxy_manager" where
  "mark_proxy_failed p pm =
     (let pm1 = pm\<lparr>failed_proxies := insert (proxy_key p) (failed_proxies pm)\<rparr> in
      if p \<in> set (working_proxies pm1)
      then pm1\<lparr>working_proxies := remove1 p (working_proxies pm1)\<rparr>
      else pm1)"

text \<open>
  A run of the manager: the calls made on it, in order. \<open>run_calls\<close> returns what the
  calls of \<open>get_random_proxy\<close> returned, the time and the manager at the end.
\<close>

datatype pm_call = GetRandomProxy | MarkProxyFailed proxy

fun run_calls ::
  "net \<Rightarrow> pm_call list \<Rightarrow> nat \<Rightarrow> proxy_manager \<Rightarrow> proxy option list \<times> nat \<times> proxy_manager" where
  "run_calls w [] t pm = ([], t, pm)"
| "run_calls w (GetRandomProxy # cs) t pm =
     (case get_random_proxy w t pm of
        (r, t1, pm1) \<Rightarrow>
          (case run_calls w cs t1 pm1 of
             (rs, t2, pm2) \<Rightarrow> (r # rs, t2, pm2)))"
| "run_calls w (MarkProxyFailed p # cs) t pm = run_calls w cs t (mark_proxy_failed p pm)"

section \<open>The configuration manager (config\_manager.py)\<close>

text \<open>
  A \<open>ConfigParser\<close> keeps the options of the \<open>DEFAULT\<close> section, the options of every
  other section, and its interpolation object. Option names are stored in lower case.
  \<open>cp_interpolation d v\<close> stands for \<open>BasicInterpolation.before_get\<close> on the value \<open>v\<close>
  with the options \<open>d\<close> in scope: the expanded value, or an interpolation error.
\<close>

record configparser =
  cp_defaults :: "string \<rightharpoonup> string"
  cp_sections :: "string \<rightharpoonup> (string \<rightharpoonup> string)"
  cp_interpolation :: "(string \<rightharpoonup> string) \<Rightarrow> string \<Rightarrow> py_error + string"

text \<open>\<open>str.lower()\<close> on code points below 256.\<close>

definition py_lower_char :: "char \<Rightarrow> char" where
  "py_lower_char c = (let n = (of_char c :: nat) in
     if (65 \<le> n \<and> n \<le> 90) \<or> (192 \<le> n \<and> n \<le> 222 \<and> n \<noteq> 215)
     then char_of (n + 32) else c)"

definition py_lower :: "string \<Rightarrow> string" where
  "py_lower s = map py_lower_char s"

text \<open>
  \<open>ConfigParser.get(section, option)\<close> without a fallback: the options of the section laid
  over the defaults, the option name in lower case, the value interpolated.
\<close>

definition cp_get :: "configparser \<Rightarrow> string \<Rightarrow> string \<Rightarrow> py_error + string" where
  "cp_get cp section option =
     (case (if section = ''DEFAULT'' then Some Map.empty else cp_sections cp section) of
        None \<Rightarrow> Inl NoSectionError
      | Some sec \<Rightarrow>
          (let d = cp_defaults cp ++ sec in
           case d (py_lower option) of
             None \<Rightarrow> Inl NoOptionError
           | Some v \<Rightarrow> cp_interpolation cp d v))"

text \<open>
  With a fallback, the library returns it when the section or the option is missing; the
  converting getters apply the conversion to the value and let its exception out.
\<close>

definition cp_get_conv ::
  "configparser \<Rightarrow> string \<Rightarrow> string \<Rightarrow> (string \<Rightarrow> py_error + 'a) \<Rightarrow> 'a \<Rightarrow> py_error + 'a" where
  "cp_get_conv cp section option conv fallback =
     (case cp_get cp section option of
        Inl e \<Rightarrow> if e = NoSectionError \<or> e = NoOptionError then Inr fallback else Inl e
      | Inr v \<Rightarrow> conv v)"

definition convert_to_boolean :: "string \<Rightarrow> py_error + bool" where
  "convert_to_boolean v =
     (let l = py_lower v in
      if l \<in> set [''1'', ''yes'', ''true'', ''on''] then Inr True
      else if l \<in> set [''0'', ''no'', ''false'', ''off''] then Inr False
      else Inl ValueError)"

text \<open>
  A Python \<open>float\<close> is a finite double, which is a rational number, an infinity or a
  NaN. \<open>float(s)\<close> is a parameter of the getters that use it, \<open>None\<close> for \<open>ValueError\<close>.
\<close>

datatype pyfloat = PyFloat rat | PyInf | PyNegInf | PyNaN

definition convert_to_float :: "(string \<Rightarrow> pyfloat option) \<Rightarrow> string \<Rightarrow> py_error + pyfloat" where
  "convert_to_float fl v = (case fl v of None \<Rightarrow> Inl ValueError | Some x \<Rightarrow> Inr x)"

record config_manager =
  config_file :: string
  config :: configparser

text \<open>
  \<open>_create_default_config\<close> assigns the four sections; \<open>_save_config\<close> then writes the
  file and catches every exception, which leaves the manager as it is.
\<close>

definition create_default_config :: "config_manager \<Rightarrow> config_manager" where
  "create_default_config cm =
     cm\<lparr>config := (config cm)\<lparr>cp_sections := (cp_sections (config cm))
       (''GENERAL'' \<mapsto> map_of
          [(''proxy_file'', ''proxies.txt''), (''headless_mode'', ''False''),
           (''disable_images'', ''True''), (''log_level'', ''INFO'')],
        ''TIMING'' \<mapsto> map_of
          [(''min_delay_between_views'', ''30''), (''max_delay_between_views'', ''120''),
           (''min_watch_duration'', ''30''), (''max_watch_duration'', ''180''),
           (''page_load_timeout'', ''30'')],
        ''BEHAVIOR'' \<mapsto> map_of
          [(''scroll_probability'', ''0.3''), (''pause_probability'', ''0.4''),
           (''mouse_move_probability'', ''0.2''), (''random_behavior_enabled'', ''True'')],
        ''BROWSER'' \<mapsto> map_of
          [(''user_agent_rotation'', ''True''), (''window_size_randomization'', ''True''),
           (''disable_webrtc'', ''True''), (''disable_plugins'', ''True'')])\<rparr>\<rparr>"

text \<open>
  What \<open>load_config\<close> finds: no file; a file that \<open>read\<close> parsed into the given defaults
  and sections; or an exception of \<open>read\<close>, which leaves the parser with what it had
  stored until then.
\<close>

datatype config_source =
    NoFile
  | ReadOk "string \<rightharpoonup> string" "string \<rightharpoonup> (string \<rightharpoonup> string)"
  | ReadFailed py_error "string \<rightharpoonup> string" "string \<rightharpoonup> (string \<rightharpoonup> string)"

definition load_config :: "config_source \<Rightarrow> config_manager \<Rightarrow> config_manager" where
  "load_config src cm =
     (case src of
        NoFile \<Rightarrow> create_default_config cm
      | ReadOk d s \<Rightarrow> cm\<lparr>config := (config cm)\<lparr>cp_defaults := d, cp_sections := s\<rparr>\<rparr>
      | ReadFailed e d s \<Rightarrow>
          create_default_config (cm\<lparr>config := (config cm)\<lparr>cp_defaults := d, cp_sections := s\<rparr>\<rparr>))"

text \<open>
  \<open>ConfigManager.__init__\<close>; the first argument is the interpolation of a new
  \<open>ConfigParser()\<close>.
\<close>

definition new_config_manager ::
  "((string \<rightharpoonup> string) \<Rightarrow> string \<Rightarrow> py_error + string) \<Rightarrow> string \<Rightarrow> config_source \<Rightarrow>
     config_manager" where
  "new_config_manager interp name src =
     load_config src
       \<lparr>config_file = name,
        config = \<lparr>cp_defaults = Map.empty, cp_sections = Map.empty, cp_interpolation = interp\<rparr>\<rparr>"

text \<open>
  The typed accessors. Each wraps the library getter in \<open>try\<close> and returns the fallback
  on any exception. For \<open>get\<close>, \<open>None\<close> is Python's \<open>None\<close>, the default fallback.
\<close>

definition get :: "config_manager \<Rightarrow> string \<Rightarrow> string \<Rightarrow> string option \<Rightarrow> string option" where
  "get cm section key fallback =
     (case cp_get_conv (config cm) section key (\<lambda>v. Inr (Some v)) fallback of
        Inl e \<Rightarrow> fallback
      | Inr r \<Rightarrow> r)"

definition get_bool :: "config_manager \<Rightarrow> string \<Rightarrow> string \<Rightarrow> bool \<Rightarrow> bool" where
  "get_bool cm section key fallback =
     (case cp_get_conv (config cm) section key convert_to_boolean fallback of
        Inl e \<Rightarrow> fallback
      | Inr r \<Rightarrow> r)"

definition get_int :: "config_manager \<Rightarrow> string \<Rightarrow> string \<Rightarrow> int \<Rightarrow> int" where
  "get_int cm section key fallback =
     (case cp_get_conv (config cm) section key int_of_str fallback of
        Inl e \<Rightarrow> fallback
      | Inr r \<Rightarrow> r)"

definition get_float ::
  "(string \<Rightarrow> pyfloat option) \<Rightarrow> config_manager \<Rightarrow> string \<Rightarrow> string \<Rightarrow> pyfloat \<Rightarrow> pyfloat" where
  "get_float fl cm section key fallback =
     (case cp_get_conv (config cm) section key (convert_to_float fl) fallback of
        Inl e \<Rightarrow> fallback
      | Inr r \<Rightarrow> r)"

definition get_proxy_file :: "config_manager \<Rightarrow> string option" where
  "get_proxy_file cm = get cm ''GENERAL'' ''proxy_file'' (Some ''proxies.txt'')"



definition get_min_delay :: "(string \<Rightarrow> pyfloat option) \<Rightarrow> config_manager \<Rightarrow> pyfloat" where
  "get_min_delay fl cm = get_float fl cm ''TIMING'' ''min_delay_between_views'' (PyFloat 30)"

definition get_max_delay :: "(string \<Rightarrow> pyfloat option) \<Rightarrow> config_manager \<Rightarrow> pyfloat" where
  "get_max_delay fl cm = get_float fl cm ''TIMING'' ''max_delay_between_views'' (PyFloat 120)"

definition get_min_watch_duration :: "(string \<Rightarrow> pyfloat option) \<Rightarrow> config_manager \<Rightarrow> pyfloat" where
  "get_min_watch_duration fl cm = get_float fl cm ''TIMING'' ''min_watch_duration'' (PyFloat 30)"

definition get_max_watch_duration :: "(string \<Rightarrow> pyfloat option) \<Rightarrow> config_manager \<Rightarrow> pyfloat" where
  "get_max_watch_duration fl cm = get_float fl cm ''TIMING'' ''max_watch_duration'' (PyFloat 180)"










section \<open>The view loop (youtube\_bot.py, browser\_manager.py)\<close>

text \<open>
  The browser, the page, the random numbers and the clock are outside the program.
  \<open>py_float\<close> is \<open>float(s)\<close> and \<open>sleep d\<close> the exception \<open>time.sleep(d)\<close> raises, if any.
  For the \<open>i\<close>-th view, \<open>chrome\<close> is the exception raised while \<open>create_browser\<close> builds
  the driver, \<open>page\<close> the one raised by loading the video page, \<open>video\<close> what looking up
  the video element gives (an exception, or whether the element is truthy), \<open>quit\<close> the
  exception raised by \<open>driver.quit()\<close>, and \<open>uniform_watch a b\<close> and \<open>uniform_delay a b\<close>
  the numbers \<open>random.uniform(a, b)\<close> returns for the watch duration and for the delay
  before the next view. All exceptions are of class \<open>Exception\<close>; signals such as
  \<open>KeyboardInterrupt\<close> are not modelled.
\<close>

record world =
  network :: net
  py_float :: "string \<Rightarrow> pyfloat option"
  sleep :: "pyfloat \<Rightarrow> py_error option"
  chrome :: "nat \<Rightarrow> py_error option"
  page :: "nat \<Rightarrow> py_error option"
  video :: "nat \<Rightarrow> py_error + bool"
  uniform_watch :: "nat \<Rightarrow> pyfloat \<Rightarrow> pyfloat \<Rightarrow> pyfloat"
  quit :: "nat \<Rightarrow> py_error option"
  uniform_delay :: "nat \<Rightarrow> pyfloat \<Rightarrow> pyfloat \<Rightarrow> pyfloat"

text \<open>
  The bot: its configuration, its proxy manager and the two counters. \<open>clock\<close> is the
  number of random draws made so far, which is where the manager reads the environment.
\<close>

record youtube_bot =
  bot_config :: config_manager
  bot_proxy_manager :: proxy_manager
  clock :: nat
  success_count :: int
  failed_count :: int

text \<open>
  \<open>YouTubeBot.__init__\<close>. \<open>fs\<close> is the file system as \<open>load_proxies\<close> sees it, \<open>ua\<close> the
  exception raised by \<open>UserAgent()\<close> in \<open>BrowserManager.__init__\<close>, which no handler of the
  constructors catches.
\<close>

definition new_youtube_bot ::
  "(string option \<Rightarrow> py_error + string list) \<Rightarrow> py_error option \<Rightarrow> config_manager \<Rightarrow>
     py_error + youtube_bot" where
  "new_youtube_bot fs ua cm =
     (let pm = new_proxy_manager (get_proxy_file cm) (fs (get_proxy_file cm)) in
      case ua of
        Some e \<Rightarrow> Inl e
      | None \<Rightarrow>
          Inr \<lparr>bot_config = cm, bot_proxy_manager = pm, clock = 0,
               success_count = 0, failed_count = 0\<rparr>)"

text \<open>\<open>create_browser\<close> returns the driver, here the number of the view, or \<open>None\<close>.\<close>

definition create_browser :: "world \<Rightarrow> nat \<Rightarrow> proxy option \<Rightarrow> nat option" where
  "create_browser w i px = (case chrome w i of Some e \<Rightarrow> None | None \<Rightarrow> Some i)"

text \<open>
  \<open>_get_random_delay\<close> and \<open>_get_random_watch_duration\<close> for the \<open>i\<close>-th view: a draw of
  \<open>random.uniform\<close> between the two configured bounds.
\<close>

definition get_random_delay :: "world \<Rightarrow> config_manager \<Rightarrow> nat \<Rightarrow> pyfloat" where
  "get_random_delay w cm i =
     uniform_delay w i (get_min_delay (py_float w) cm) (get_max_delay (py_float w) cm)"

definition get_random_watch_duration :: "world \<Rightarrow> config_manager \<Rightarrow> nat \<Rightarrow> pyfloat" where
  "get_random_watch_duration w cm i =
     uniform_watch w i (get_min_watch_duration (py_float w) cm)
       (get_max_watch_duration (py_float w) cm)"

text \<open>
  \<open>_simulate_view\<close>: any exception of the body gives \<open>False\<close>. The behaviour simulation
  between the lookup and the watch catches its own exceptions.
\<close>

definition simulate_view :: "world \<Rightarrow> config_manager \<Rightarrow> nat \<Rightarrow> string \<Rightarrow> bool" where
  "simulate_view w cm browser video_url =
     (case page w browser of
        Some e \<Rightarrow> False
      | None \<Rightarrow>
          (case video w browser of
             Inl e \<Rightarrow> False
           | Inr found \<Rightarrow>
               if \<not> found then False
               else (case sleep w (get_random_watch_duration w cm browser) of
                       Some e \<Rightarrow> False
                     | None \<Rightarrow> True)))"

definition close_browser :: "world \<Rightarrow> nat \<Rightarrow> youtube_bot \<Rightarrow> youtube_bot" where
  "close_browser w browser ybot = (case quit w browser of Some e \<Rightarrow> ybot | None \<Rightarrow> ybot)"

text \<open>
  The body of the loop of \<open>generate_views\<close> for index \<open>i\<close>. The only statement of the
  \<open>try\<close> block that can raise is the sleep between views; the handler then counts one
  more failure.
\<close>

definition view_iteration :: "world \<Rightarrow> string \<Rightarrow> int \<Rightarrow> youtube_bot \<Rightarrow> nat \<Rightarrow> youtube_bot" where
  "view_iteration w video_url target_views ybot i =
     (case get_random_proxy (network w) (clock ybot) (bot_proxy_manager ybot) of
        (px, t, pm) \<Rightarrow>
          (let bot1 = ybot\<lparr>bot_proxy_manager := pm, clock := t\<rparr>;
               bot2 =
                 (case create_browser w i px of
                    Some browser \<Rightarrow>
                      close_browser w browser
                        (if simulate_view w (bot_config bot1) browser video_url
                         then bot1\<lparr>success_count := success_count bot1 + 1\<rparr>
                         else bot1\<lparr>failed_count := failed_count bot1 + 1\<rparr>)
                  | None \<Rightarrow> bot1\<lparr>failed_count := failed_count bot1 + 1\<rparr>)
           in if int i < target_views - 1
              then (case sleep w (get_random_delay w (bot_config bot2) i) of
                      Some e \<Rightarrow> bot2\<lparr>failed_count := failed_count bot2 + 1\<rparr>
                    | None \<Rightarrow> bot2)
              else bot2))"

text \<open>\<open>generate_views\<close>: the loop over \<open>range(target_views)\<close>, then the returned count.\<close>

definition generate_views :: "world \<Rightarrow> string \<Rightarrow> int \<Rightarrow> youtube_bot \<Rightarrow> int \<times> youtube_bot" where
  "generate_views w video_url target_views ybot =
     (let bot' = foldl (view_iteration w video_url target_views) ybot [0..<nat target_views]
      in (success_count bot', bot'))"

section \<open>The entry point (main.py)\<close>

record args =
  url :: string
  views :: int
  args_config :: string
  log_level :: string
  dry_run :: bool

text \<open>
  What \<open>main\<close> meets outside the program: the world of the view loop, the interpolation
  of a new parser, what \<open>load_config\<close> finds under a name, the proxy files, the exception
  raised by \<open>setup_logging\<close> (opening the log file) and the one raised by \<open>UserAgent()\<close>.
\<close>

record env =
  env_world :: world
  basic_interpolation :: "(string \<rightharpoonup> string) \<Rightarrow> string \<Rightarrow> py_error + string"
  config_files :: "string \<Rightarrow> config_source"
  proxy_files :: "string option \<Rightarrow> py_error + string list"
  logging_setup :: "py_error option"
  user_agent :: "py_error option"

text \<open>
  \<open>main\<close> returns the exit status of the process and the bot it ran, if it built one. The
  second argument is what \<open>parse_args\<close> yields: the status of its \<open>SystemExit\<close> (2 for
  malformed arguments) or the arguments. An exception of \<open>setup_logging\<close> is not caught
  and ends the process with status 1; inside the \<open>try\<close>, the handler of \<open>Exception\<close> calls
  \<open>sys.exit(1)\<close>. The handler of \<open>KeyboardInterrupt\<close> logs and returns; interrupts are
  outside the model.
\<close>

definition main :: "env \<Rightarrow> nat + args \<Rightarrow> nat \<times> youtube_bot option" where
  "main e cli =
     (case cli of
        Inl status \<Rightarrow> (status, None)
      | Inr a \<Rightarrow>
          (case logging_setup e of
             Some x \<Rightarrow> (1, None)
           | None \<Rightarrow>
               (let cm = new_config_manager (basic_interpolation e) (args_config a)
                           (config_files e (args_config a)) in
                case new_youtube_bot (proxy_files e) (user_agent e) cm of
                  Inl x \<Rightarrow> (1, None)
                | Inr ybot \<Rightarrow>
                    if dry_run a then (0, Some ybot)
                    else (case generate_views (env_world e) (url a) (views a) ybot of
                            (n, bot') \<Rightarrow> (0, Some bot')))))"

section \<open>Example inputs\<close>

text \<open>Concrete proxies, files, configurations and environments on which the results are run.\<close>

definition proxy_a :: proxy where
  "proxy_a = \<lparr>host = ''10.0.0.1'', port = 8080, protocol = ''http'',
               username = None, password = None\<rparr>"

definition proxy_b :: proxy where
  "proxy_b = \<lparr>host = ''10.0.0.2'', port = 3128, protocol = ''http'',
               username = Some ''u'', password = Some ''p''\<rparr>"

definition proxy_c :: proxy where
  "proxy_c = \<lparr>host = ''10.0.0.3'', port = 80, protocol = ''http'',
               username = None, password = None\<rparr>"

text \<open>A manager with three proxies, the first of which has already failed.\<close>

definition example_manager :: proxy_manager where
  "example_manager =
     \<lparr>proxy_file = Some ''proxies.txt'', proxies = [proxy_a, proxy_b, proxy_c],
      working_proxies = [], failed_proxies = {''10.0.0.1:8080''}\<rparr>"

text \<open>A network where the first liveness request is answered with 503 and the later ones with 200.\<close>

definition flaky_net :: net where
  "flaky_net = \<lparr>draw = (\<lambda>t. 0), http_get = (\<lambda>t u. if t = 0 then Inr 503 else Inr 200)\<rparr>"

definition quiet_net :: net where
  "quiet_net = \<lparr>draw = (\<lambda>t. 0), http_get = (\<lambda>t u. Inr 200)\<rparr>"

text \<open>A proxy file: a comment, a blank line, a proxy line ending in a newline, a line without a port.\<close>

definition example_lines :: "string list" where
  "example_lines =
     [''  # my proxies'', [CHR 0x0A], ''10.0.0.1:8080'' @ [CHR 0x0A], ''localhost'']"

text \<open>An interpolation that leaves a value without a percent sign as it is, as the library's does.\<close>

definition plain_interpolation :: "(string \<rightharpoonup> string) \<Rightarrow> string \<Rightarrow> py_error + string" where
  "plain_interpolation d v = (if CHR ''%'' \<in> set v then Inl InterpolationError else Inr v)"

text \<open>A \<open>float()\<close> restricted to the strings that \<open>int()\<close> accepts.\<close>

definition integer_float :: "string \<Rightarrow> pyfloat option" where
  "integer_float s = map_option (\<lambda>n. PyFloat (of_int n)) (py_int s)"

text \<open>The manager built when there is no configuration file.\<close>

definition default_manager :: config_manager where
  "default_manager = new_config_manager plain_interpolation ''config.ini'' NoFile"

text \<open>
  \<open>time.sleep\<close> on the arguments used here: it raises \<open>ValueError\<close> on a negative number
  and on NaN, and cannot take an infinity.
\<close>

definition example_sleep :: "pyfloat \<Rightarrow> py_error option" where
  "example_sleep d =
     (case d of
        PyFloat x \<Rightarrow> if x < 0 then Some ValueError else None
      | PyNaN \<Rightarrow> Some ValueError
      | _ \<Rightarrow> Some OverflowError)"

text \<open>
  A world in which every browser starts, every page shows its video, and every draw of
  \<open>random.uniform(a, b)\<close> is \<open>a\<close>.
\<close>

definition quiet_world :: world where
  "quiet_world =
     \<lparr>network = quiet_net, py_float = integer_float, sleep = example_sleep,
      chrome = (\<lambda>i. None), page = (\<lambda>i. None), video = (\<lambda>i. Inr True),
      uniform_watch = (\<lambda>i a b. a), quit = (\<lambda>i. None), uniform_delay = (\<lambda>i a b. a)\<rparr>"

text \<open>
  A configuration file whose \<open>TIMING\<close> section sets \<open>min_delay_between_views = -2\<close> and
  \<open>max_delay_between_views = -1\<close>, and the manager built from it.
\<close>

definition negative_delay_file :: config_source where
  "negative_delay_file =
     ReadOk Map.empty
       [''TIMING'' \<mapsto> map_of
          [(''min_delay_between_views'', ''-2''), (''max_delay_between_views'', ''-1'')]]"

definition negative_delay_manager :: config_manager where
  "negative_delay_manager =
     new_config_manager plain_interpolation ''config.ini'' negative_delay_file"

text \<open>The bots \<open>YouTubeBot.__init__\<close> builds from the two managers when there is no proxy file.\<close>

definition fresh_bot :: youtube_bot where
  "fresh_bot =
     \<lparr>bot_config = default_manager,
      bot_proxy_manager = new_proxy_manager (Some ''proxies.txt'') (Inl FileNotFoundError),
      clock = 0, success_count = 0, failed_count = 0\<rparr>"

definition negative_delay_bot :: youtube_bot where
  "negative_delay_bot = fresh_bot\<lparr>bot_config := negative_delay_manager\<rparr>"

definition example_args :: args where
  "example_args =
     \<lparr>url = ''https://www.youtube.com/watch?v=x'', views = 2,
      args_config = ''config.ini'', log_level = ''INFO'', dry_run = False\<rparr>"

text \<open>An environment without files in which \<open>UserAgent()\<close> raises.\<close>

definition offline_env :: env where
  "offline_env =
     \<lparr>env_world = quiet_world, basic_interpolation = plain_interpolation,
      config_files = (\<lambda>name. NoFile), proxy_files = (\<lambda>name. Inl FileNotFoundError),
      logging_setup = None, user_agent = Some FakeUserAgentError\<rparr>"

definition quiet_env :: env where
  "quiet_env = offline_env\<lparr>user_agent := None\<rparr>"

section \<open>Parsing proxy lines\<close>

lemma py_split_no_sep: "c \<notin> set h \<Longrightarrow> py_split [c] h = [h]"
  by (induction h) auto

lemma py_split_field: "c \<notin> set h \<Longrightarrow> py_split [c] (h @ c # rest) = h # py_split [c] rest"
  by (induction h) auto

lemma dropWhile_snoc_keeps: "\<not> P c \<Longrightarrow> \<exists>ys. dropWhile P (xs @ [c]) = ys @ [c]"
  by (induction xs) auto

lemma py_strip_keeps_head: "\<not> is_space c \<Longrightarrow> \<exists>r. py_strip (c # s) = c # r"
proof -
  assume c: "\<not> is_space c"
  from dropWhile_snoc_keeps[of is_space c "rev s", OF c]
  obtain ys where "dropWhile is_space (rev s @ [c]) = ys @ [c]" by blast
  with c show ?thesis by (simp add: py_strip_def)
qed

lemma py_int_slash: "py_int (CHR ''/'' # s) = None"
proof -
  have ns: "\<not> is_space CHR ''/''"
    by (simp add: is_space_def)
  from py_strip_keeps_head[OF ns, of s]
  obtain r where "py_strip (CHR ''/'' # s) = CHR ''/'' # r" by blast
  then show ?thesis
    by (simp add: py_int_def int_unsigned_def is_digit_def)
qed

lemma py_split_head_slash: "\<exists>f fs. py_split '':'' (CHR ''/'' # s) = (CHR ''/'' # f) # fs"
  by (cases "py_split '':'' s") auto

text \<open>
  A line \<open>scheme://rest\<close> is split at its colons first, so the field after the scheme
  starts with \<open>//\<close> and is not a number: every such line is rejected.
\<close>

lemma parse_scheme_url_rejected:
  assumes "CHR '':'' \<notin> set scheme"
  shows "parse_proxy_line (scheme @ ''://'' @ rest) = None"
proof -
  obtain f fs where sp: "py_split '':'' (CHR ''/'' # CHR ''/'' # rest) = (CHR ''/'' # f) # fs"
    using py_split_head_slash by blast
  have parts: "py_split '':'' (scheme @ CHR '':'' # CHR ''/'' # CHR ''/'' # rest)
                 = scheme # (CHR ''/'' # f) # fs"
    using py_split_field[OF assms, of "''//'' @ rest"] sp by simp
  show ?thesis
    by (simp add: parse_proxy_line_def parse_proxy_try_def parts int_of_str_def py_int_slash
          Let_def split: sum.splits)
qed

text \<open>The two formats without a scheme are parsed, and format to a URL with the same parts.\<close>

lemma parse_host_port:
  assumes "CHR '':'' \<notin> set h" "CHR '':'' \<notin> set p"
    and "\<not> py_in ''//'' h" and "py_int p = Some n"
  shows "parse_proxy_line (h @ '':'' @ p) =
           Some \<lparr>host = h, port = n, protocol = ''http'', username = None, password = None\<rparr>"
proof -
  have parts: "py_split '':'' (h @ CHR '':'' # p) = [h, p]"
    using assms(1,2) by (simp add: py_split_field py_split_no_sep)
  show ?thesis using assms(3,4)
    by (simp add: parse_proxy_line_def parse_proxy_try_def parts int_of_str_def)
qed

lemma parse_host_port_user_pass:
  assumes "CHR '':'' \<notin> set h" "CHR '':'' \<notin> set p" "CHR '':'' \<notin> set u" "CHR '':'' \<notin> set pw"
    and "\<not> py_in ''//'' h" and "py_int p = Some n"
  shows "parse_proxy_line (h @ '':'' @ p @ '':'' @ u @ '':'' @ pw) =
           Some \<lparr>host = h, port = n, protocol = ''http'', username = Some u, password = Some pw\<rparr>"
proof -
  have parts: "py_split '':'' (h @ CHR '':'' # p @ CHR '':'' # u @ CHR '':'' # pw) = [h, p, u, pw]"
    using assms(1-4) by (simp add: py_split_field py_split_no_sep)
  show ?thesis using assms(5,6)
    by (simp add: parse_proxy_line_def parse_proxy_try_def parts int_of_str_def)
qed

lemma format_host_port:
  assumes "CHR '':'' \<notin> set h" "CHR '':'' \<notin> set p"
    and "\<not> py_in ''//'' h" and "py_int p = Some n"
  shows "map_option format_proxy_url (parse_proxy_line (h @ '':'' @ p)) =
           Some (''http://'' @ h @ '':'' @ py_str n)"
  using parse_host_port[OF assms] by (simp add: format_proxy_url_def)

lemma format_host_port_user_pass:
  assumes "CHR '':'' \<notin> set h" "CHR '':'' \<notin> set p" "CHR '':'' \<notin> set u" "CHR '':'' \<notin> set pw"
    and "\<not> py_in ''//'' h" and "py_int p = Some n"
  shows "map_option format_proxy_url (parse_proxy_line (h @ '':'' @ p @ '':'' @ u @ '':'' @ pw)) =
           Some (''http://'' @ u @ '':'' @ pw @ ''@'' @ h @ '':'' @ py_str n)"
  using parse_host_port_user_pass[OF assms] by (simp add: format_proxy_url_def)

text \<open>
  Claim C1. Parsing a line of a supported format (\<open>host:port\<close>, \<open>host:port:user:pass\<close> or
  \<open>protocol://host:port\<close>) and formatting the result gives back host, port, protocol and
  credentials. The code does not do this for the third format: the line
  \<open>http://1.2.3.4:8080\<close>, which the comment of \<open>_parse_proxy_line\<close> lists as supported, is
  split into \<open>http\<close>, \<open>//1.2.3.4\<close> and \<open>8080\<close>, the test for \<open>//\<close> looks at \<open>http\<close>, and
  \<open>int('//1.2.3.4')\<close> raises, so the line is dropped.
\<close>

theorem parse_proxy_line_scheme_url:
  "py_split '':'' ''http://1.2.3.4:8080'' = [''http'', ''//1.2.3.4'', ''8080'']
   \<and> py_int ''//1.2.3.4'' = None
   \<and> parse_proxy_line ''http://1.2.3.4:8080'' = None"
  by (simp add: parse_proxy_line_def parse_proxy_try_def int_of_str_def py_int_def py_strip_def
        is_space_def int_unsigned_def is_digit_def)




section \<open>Loading the proxy file\<close>

lemma load_lines_parsed_entries: "load_lines ls ps = ps @ parsed_entries ls"
  by (induction ls arbitrary: ps)
     (auto simp: parsed_entries_def List.map_filter_simps Let_def split: option.splits)

lemma load_lines_skips:
  "py_strip l = [] \<or> prefix ''#'' (py_strip l) \<Longrightarrow> load_lines (l # ls) ps = load_lines ls ps"
  by (auto simp: Let_def)

text \<open>
  Claim C5. For every proxy file, \<open>load_proxies\<close> appends to \<open>self.proxies\<close> exactly the
  proxies parsed from the stripped lines that are neither empty nor start with \<open>#\<close>, in
  the order of the file; blank lines, comment lines and lines that do not parse add
  nothing. A new manager therefore holds exactly these entries.
\<close>

theorem load_proxies_parsed_entries:
  "proxies (load_proxies (Inr lines) pm) = proxies pm @ parsed_entries lines
   \<and> proxies (new_proxy_manager name (Inr lines)) = parsed_entries lines
   \<and> parsed_entries (l # ls) =
       (if py_strip l = [] \<or> prefix ''#'' (py_strip l) then parsed_entries ls
        else (case parse_proxy_line (py_strip l) of
                None \<Rightarrow> parsed_entries ls
              | Some p \<Rightarrow> p # parsed_entries ls))"
  by (auto simp: load_proxies_def new_proxy_manager_def load_lines_parsed_entries
        parsed_entries_def List.map_filter_simps split: option.splits)

theorem load_proxies_parsed_entries_witness:
  "proxies (new_proxy_manager (Some ''proxies.txt'') (Inr example_lines)) = [proxy_a]"
proof -
  have "parsed_entries example_lines = [proxy_a]"
    by (simp add: parsed_entries_def example_lines_def List.map_filter_simps py_strip_def
          is_space_def parse_proxy_line_def parse_proxy_try_def int_of_str_def py_int_def
          int_unsigned_def is_digit_def digit_val_def int_max_str_digits_def proxy_a_def)
  with load_proxies_parsed_entries[of example_lines _ "Some ''proxies.txt''"]
  show ?thesis by simp
qed

section \<open>Failed proxies and the recursion of \<open>get_random_proxy\<close>\<close>

lemma get_random_proxy_return:
  "get_random_proxy_step w t pm = Inl r \<Longrightarrow> get_random_proxy w t pm = r"
  by (simp add: get_random_proxy.simps[of w t pm])

lemma get_random_proxy_retry:
  "get_random_proxy_step w t pm = Inr (t', pm') \<Longrightarrow>
     get_random_proxy w t pm = get_random_proxy w t' pm'"
  by (simp add: get_random_proxy.simps[of w t pm])

text \<open>A return hands out an available proxy, if any, and leaves the failed set alone.\<close>

lemma step_return:
  assumes "get_random_proxy_step w t pm = Inl (r, t', pm')"
  shows "failed_proxies pm' = failed_proxies pm"
    and "proxies pm' = proxies pm"
    and "r = Some p \<Longrightarrow> p \<in> set (proxies pm) \<and> proxy_key p \<notin> failed_proxies pm"
proof -
  let ?p = "random_choice (draw w t) (available_proxies pm)"
  have mem: "available_proxies pm \<noteq> [] \<Longrightarrow> ?p \<in> set (available_proxies pm)"
    by (simp add: random_choice_def)
  from assms show "failed_proxies pm' = failed_proxies pm"
    by (auto simp: get_random_proxy_step_def Let_def split: if_splits)
  from assms show "proxies pm' = proxies pm"
    by (auto simp: get_random_proxy_step_def Let_def split: if_splits)
  assume "r = Some p"
  with assms have "available_proxies pm \<noteq> []" "p = ?p"
    by (auto simp: get_random_proxy_step_def Let_def split: if_splits)
  with mem have "p \<in> set (available_proxies pm)" by simp
  then show "p \<in> set (proxies pm) \<and> proxy_key p \<notin> failed_proxies pm"
    by (simp add: available_proxies_def)
qed

text \<open>A recursive call starts from the state in which the key of an available proxy has failed.\<close>

lemma step_retry:
  assumes "get_random_proxy_step w t pm = Inr (t', pm')"
  shows "\<exists>p \<in> set (available_proxies pm).
           pm' = pm\<lparr>failed_proxies := insert (proxy_key p) (failed_proxies pm)\<rparr>"
proof -
  let ?p = "random_choice (draw w t) (available_proxies pm)"
  from assms have ne: "available_proxies pm \<noteq> []"
    and pm': "pm' = pm\<lparr>failed_proxies := insert (proxy_key ?p) (failed_proxies pm)\<rparr>"
    by (auto simp: get_random_proxy_step_def Let_def split: if_splits)
  from ne have "?p \<in> set (available_proxies pm)"
    by (simp add: random_choice_def)
  with pm' show ?thesis by blast
qed

lemma get_random_proxy_failed:
  "get_random_proxy w t pm = (r, t', pm') \<Longrightarrow>
     failed_proxies pm \<subseteq> failed_proxies pm' \<and> proxies pm' = proxies pm \<and>
     (\<forall>p. r = Some p \<longrightarrow> p \<in> set (proxies pm) \<and> proxy_key p \<notin> failed_proxies pm')"
proof (induction w t pm arbitrary: r t' pm' rule: get_random_proxy.induct)
  case (1 w t pm)
  show ?case
  proof (cases "get_random_proxy_step w t pm")
    case (Inl res)
    with "1.prems" have res: "res = (r, t', pm')"
      by (simp add: get_random_proxy_return)
    from step_return[OF Inl[unfolded res]] show ?thesis by auto
  next
    case (Inr st)
    obtain t1 pm1 where st: "st = (t1, pm1)" by (cases st)
    from "1.prems" Inr st have rec: "get_random_proxy w t1 pm1 = (r, t', pm')"
      by (simp add: get_random_proxy_retry)
    from step_retry[OF Inr[unfolded st]] obtain q where
      pm1: "pm1 = pm\<lparr>failed_proxies := insert (proxy_key q) (failed_proxies pm)\<rparr>" by blast
    from "1.IH"[OF Inr st[symmetric] rec] pm1 show ?thesis by auto
  qed
qed

lemma mark_proxy_failed_failed:
  "failed_proxies (mark_proxy_failed p pm) = insert (proxy_key p) (failed_proxies pm)"
  by (simp add: mark_proxy_failed_def Let_def)

lemma run_calls_failed:
  "run_calls w cs t pm = (rs, t', pm') \<Longrightarrow>
     failed_proxies pm \<subseteq> failed_proxies pm' \<and>
     (\<forall>p. Some p \<in> set rs \<longrightarrow> proxy_key p \<notin> failed_proxies pm)"
proof (induction cs arbitrary: t pm rs t' pm')
  case Nil
  then show ?case by simp
next
  case (Cons c cs)
  show ?case
  proof (cases c)
    case GetRandomProxy
    obtain r t1 pm1 where g: "get_random_proxy w t pm = (r, t1, pm1)"
      by (cases "get_random_proxy w t pm") auto
    obtain rs1 t2 pm2 where rc: "run_calls w cs t1 pm1 = (rs1, t2, pm2)"
      by (cases "run_calls w cs t1 pm1") auto
    from Cons.prems GetRandomProxy g rc have eq: "rs = r # rs1" "pm' = pm2" by auto
    from get_random_proxy_failed[OF g] Cons.IH[OF rc] eq show ?thesis by auto
  next
    case (MarkProxyFailed q)
    with Cons.prems have rc: "run_calls w cs t (mark_proxy_failed q pm) = (rs, t', pm')"
      by simp
    from Cons.IH[OF rc] show ?thesis by (auto simp: mark_proxy_failed_failed)
  qed
qed

text \<open>
  Claim C2. From any state of a \<open>ProxyManager\<close>, hence from every reachable one, and in
  any environment (any random draws, any outcomes of the liveness tests): along every
  sequence of calls of \<open>get_random_proxy\<close> and \<open>mark_proxy_failed\<close> the failed set only
  grows, and no call of \<open>get_random_proxy\<close> returns a proxy whose key is in the failed
  set the sequence started with. A key that fails its test inside a call is not returned
  by that call either, and \<open>mark_proxy_failed\<close> puts the key of its proxy into the set.
\<close>

theorem failed_proxy_never_returned:
  "failed_proxies pm \<subseteq> failed_proxies (snd (snd (run_calls w cs t pm)))
   \<and> (\<forall>p. Some p \<in> set (fst (run_calls w cs t pm)) \<longrightarrow> proxy_key p \<notin> failed_proxies pm)
   \<and> (\<forall>p. fst (get_random_proxy w t pm) = Some p \<longrightarrow>
          proxy_key p \<notin> failed_proxies (snd (snd (get_random_proxy w t pm))))
   \<and> failed_proxies (mark_proxy_failed q pm) = insert (proxy_key q) (failed_proxies pm)"
proof -
  obtain rs t' pm' where rc: "run_calls w cs t pm = (rs, t', pm')"
    by (cases "run_calls w cs t pm") auto
  obtain r t1 pm1 where g: "get_random_proxy w t pm = (r, t1, pm1)"
    by (cases "get_random_proxy w t pm") auto
  from run_calls_failed[OF rc] get_random_proxy_failed[OF g] rc g
  show ?thesis by (simp add: mark_proxy_failed_failed)
qed

lemma example_keys:
  "proxy_key proxy_a = ''10.0.0.1:8080''"
  "proxy_key proxy_b = ''10.0.0.2:3128''"
  "proxy_key proxy_c = ''10.0.0.3:80''"
  by (simp_all add: proxy_key_def proxy_a_def proxy_b_def proxy_c_def py_str_def digits_of.simps)

text \<open>
  On the example manager the first draw picks the second proxy, whose test fails; the
  recursive call picks the third, whose test succeeds.
\<close>

lemma example_step_first:
  "get_random_proxy_step flaky_net 0 example_manager =
     Inr (1, example_manager\<lparr>failed_proxies := {''10.0.0.2:3128'', ''10.0.0.1:8080''}\<rparr>)"
  by (simp add: get_random_proxy_step_def available_proxies_def example_manager_def example_keys
        random_choice_def flaky_net_def is_proxy_tested_def test_proxy_def)

lemma example_step_second:
  "get_random_proxy_step flaky_net 1
       (example_manager\<lparr>failed_proxies := {''10.0.0.2:3128'', ''10.0.0.1:8080''}\<rparr>) =
     Inl (Some proxy_c, 2,
          example_manager\<lparr>failed_proxies := {''10.0.0.2:3128'', ''10.0.0.1:8080''},
                           working_proxies := [proxy_c]\<rparr>)"
  by (simp add: get_random_proxy_step_def available_proxies_def example_manager_def example_keys
        random_choice_def flaky_net_def is_proxy_tested_def test_proxy_def)

lemma example_get_random_proxy:
  "get_random_proxy flaky_net 0 example_manager =
     (Some proxy_c, 2,
      example_manager\<lparr>failed_proxies := {''10.0.0.2:3128'', ''10.0.0.1:8080''},
                       working_proxies := [proxy_c]\<rparr>)"
  using get_random_proxy_retry[OF example_step_first] get_random_proxy_return[OF example_step_second]
  by simp

theorem failed_proxy_never_returned_witness:
  "fst (run_calls flaky_net [GetRandomProxy] 0 example_manager) = [Some proxy_c]
   \<and> fst (get_random_proxy flaky_net 0 example_manager) = Some proxy_c
   \<and> proxy_key proxy_c \<notin> failed_proxies example_manager
   \<and> proxy_key proxy_c \<notin> failed_proxies (snd (snd (get_random_proxy flaky_net 0 example_manager)))
   \<and> failed_proxies example_manager
       \<subseteq> failed_proxies (snd (snd (run_calls flaky_net [GetRandomProxy] 0 example_manager)))"
proof -
  have r: "fst (run_calls flaky_net [GetRandomProxy] 0 example_manager) = [Some proxy_c]"
    by (simp add: example_get_random_proxy)
  have g: "fst (get_random_proxy flaky_net 0 example_manager) = Some proxy_c"
    by (simp add: example_get_random_proxy)
  from failed_proxy_never_returned[of example_manager flaky_net "[GetRandomProxy]" 0 proxy_c] r g
  show ?thesis by simp
qed

lemma keys_after_retry:
  assumes "p \<in> set (available_proxies pm)"
  shows "proxy_key ` set (available_proxies
            (pm\<lparr>failed_proxies := insert (proxy_key p) (failed_proxies pm)\<rparr>))
           = proxy_key ` set (available_proxies pm) - {proxy_key p}"
  by (auto simp: available_proxies_def)

text \<open>As many recursive calls as there are distinct keys still available are enough.\<close>

lemma bounded_by_available_keys:
  "card (proxy_key ` set (available_proxies pm)) \<le> d \<Longrightarrow>
     get_random_proxy_bounded d w t pm = Some (get_random_proxy w t pm)"
proof (induction d arbitrary: t pm)
  case 0
  then have "available_proxies pm = []" by simp
  then have "\<exists>r. get_random_proxy_step w t pm = Inl r"
    by (simp add: get_random_proxy_step_def)
  then show ?case by (auto simp: get_random_proxy_return)
next
  case (Suc d)
  show ?case
  proof (cases "get_random_proxy_step w t pm")
    case (Inl res)
    then show ?thesis by (simp add: get_random_proxy_return)
  next
    case (Inr st)
    obtain t1 pm1 where st: "st = (t1, pm1)" by (cases st)
    from step_retry[OF Inr[unfolded st]] obtain p where
      p: "p \<in> set (available_proxies pm)"
      and pm1: "pm1 = pm\<lparr>failed_proxies := insert (proxy_key p) (failed_proxies pm)\<rparr>"
      by blast
    have "card (proxy_key ` set (available_proxies pm1))
            = card (proxy_key ` set (available_proxies pm)) - 1"
      using p by (simp add: pm1 keys_after_retry)
    with Suc.prems have "card (proxy_key ` set (available_proxies pm1)) \<le> d" by simp
    from Suc.IH[OF this] Inr st show ?thesis
      by (simp add: get_random_proxy_retry)
  qed
qed

text \<open>
  Claim C8. \<open>get_random_proxy\<close> terminates in every state of the manager and for every
  outcome of the draws and of the liveness tests: a recursive call is made only from a
  state in which the key of a proxy that was still available has just been added to the
  failed set, and a recursion depth equal to the number of distinct \<open>host:port\<close> keys of
  the loaded proxies is never exceeded; within that depth the call returns what the
  function, which is total, returns.
\<close>

theorem get_random_proxy_depth_bound:
  "(card (proxy_key ` set (proxies pm)) \<le> d \<longrightarrow>
      get_random_proxy_bounded d w t pm = Some (get_random_proxy w t pm))
   \<and> (get_random_proxy_step w t pm = Inr (t', pm') \<longrightarrow>
        (\<exists>p \<in> set (proxies pm). proxy_key p \<notin> failed_proxies pm
           \<and> pm' = pm\<lparr>failed_proxies := insert (proxy_key p) (failed_proxies pm)\<rparr>))"
proof (intro conjI impI)
  assume d: "card (proxy_key ` set (proxies pm)) \<le> d"
  have "proxy_key ` set (available_proxies pm) \<subseteq> proxy_key ` set (proxies pm)"
    by (auto simp: available_proxies_def)
  then have "card (proxy_key ` set (available_proxies pm)) \<le> card (proxy_key ` set (proxies pm))"
    by (simp add: card_mono)
  with d show "get_random_proxy_bounded d w t pm = Some (get_random_proxy w t pm)"
    by (simp add: bounded_by_available_keys)
next
  assume "get_random_proxy_step w t pm = Inr (t', pm')"
  from step_retry[OF this] show
    "\<exists>p \<in> set (proxies pm). proxy_key p \<notin> failed_proxies pm
       \<and> pm' = pm\<lparr>failed_proxies := insert (proxy_key p) (failed_proxies pm)\<rparr>"
    by (auto simp: available_proxies_def)
qed

theorem get_random_proxy_depth_bound_witness:
  "card (proxy_key ` set (proxies example_manager)) \<le> 3
   \<and> get_random_proxy_bounded 3 flaky_net 0 example_manager =
        Some (Some proxy_c, 2,
              example_manager\<lparr>failed_proxies := {''10.0.0.2:3128'', ''10.0.0.1:8080''},
                               working_proxies := [proxy_c]\<rparr>)
   \<and> get_random_proxy_step flaky_net 0 example_manager =
        Inr (1, example_manager\<lparr>failed_proxies := {''10.0.0.2:3128'', ''10.0.0.1:8080''}\<rparr>)
   \<and> (\<exists>p \<in> set (proxies example_manager). proxy_key p \<notin> failed_proxies example_manager
        \<and> example_manager\<lparr>failed_proxies := {''10.0.0.2:3128'', ''10.0.0.1:8080''}\<rparr>
          = example_manager\<lparr>failed_proxies :=
              insert (proxy_key p) (failed_proxies example_manager)\<rparr>)"
proof -
  have c: "card (proxy_key ` set (proxies example_manager)) \<le> 3"
    by (simp add: example_manager_def example_keys)
  from get_random_proxy_depth_bound[of example_manager 3 flaky_net 0 1
         "example_manager\<lparr>failed_proxies := {''10.0.0.2:3128'', ''10.0.0.1:8080''}\<rparr>"]
    c example_step_first example_get_random_proxy
  show ?thesis by simp
qed

section \<open>The configuration accessors\<close>

lemma cp_get_no_section:
  "s \<noteq> ''DEFAULT'' \<Longrightarrow> cp_sections cp s = None \<Longrightarrow> cp_get cp s k = Inl NoSectionError"
  by (simp add: cp_get_def)

lemma cp_get_no_option:
  "s \<noteq> ''DEFAULT'' \<Longrightarrow> cp_sections cp s = Some sec \<Longrightarrow>
     (cp_defaults cp ++ sec) (py_lower k) = None \<Longrightarrow> cp_get cp s k = Inl NoOptionError"
  by (simp add: cp_get_def Let_def del: map_add_None)

lemma getters_on_error:
  assumes "cp_get (config cm) s k = Inl e"
  shows "get_bool cm s k fb = fb" "get_int cm s k fi = fi" "get_float fl cm s k ff = ff"
  using assms by (simp_all add: get_bool_def get_int_def get_float_def cp_get_conv_def)

lemma getters_on_value:
  assumes "cp_get (config cm) s k = Inr v"
  shows "get_bool cm s k fb = (case convert_to_boolean v of Inl x \<Rightarrow> fb | Inr b \<Rightarrow> b)"
    "get_int cm s k fi = (case py_int v of None \<Rightarrow> fi | Some n \<Rightarrow> n)"
    "get_float fl cm s k ff = (case fl v of None \<Rightarrow> ff | Some x \<Rightarrow> x)"
  using assms
  by (simp_all add: get_bool_def get_int_def get_float_def cp_get_conv_def int_of_str_def
        convert_to_float_def split: option.splits)

text \<open>
  Claim C9. \<open>get_bool\<close>, \<open>get_int\<close> and \<open>get_float\<close> are total, for every section, key
  and fallback: they return a value of their type and never an exception. When the
  section is missing, when the key is missing from the section and the defaults, or when
  the library getter raises anything else, they return the fallback; when a string is
  stored, they return its conversion, and the fallback if the conversion fails.
\<close>

theorem typed_accessors_fall_back:
  "(s \<noteq> ''DEFAULT'' \<and> cp_sections (config cm) s = None \<longrightarrow>
      get_bool cm s k fb = fb \<and> get_int cm s k fi = fi \<and> get_float fl cm s k ff = ff)
   \<and> (s \<noteq> ''DEFAULT'' \<and> cp_sections (config cm) s = Some sec
        \<and> (cp_defaults (config cm) ++ sec) (py_lower k) = None \<longrightarrow>
      get_bool cm s k fb = fb \<and> get_int cm s k fi = fi \<and> get_float fl cm s k ff = ff)
   \<and> (cp_get (config cm) s k = Inl e \<longrightarrow>
      get_bool cm s k fb = fb \<and> get_int cm s k fi = fi \<and> get_float fl cm s k ff = ff)
   \<and> (cp_get (config cm) s k = Inr v \<longrightarrow>
      get_bool cm s k fb = (case convert_to_boolean v of Inl x \<Rightarrow> fb | Inr b \<Rightarrow> b)
      \<and> get_int cm s k fi = (case py_int v of None \<Rightarrow> fi | Some n \<Rightarrow> n)
      \<and> get_float fl cm s k ff = (case fl v of None \<Rightarrow> ff | Some x \<Rightarrow> x))"
  using cp_get_no_section[of s "config cm" k] cp_get_no_option[of s "config cm" sec k]
    getters_on_error[of cm s k] getters_on_value[of cm s k v]
  by metis

lemma default_manager_sections:
  "cp_sections (config default_manager) ''NOPE'' = None"
  "cp_sections (config default_manager) ''TIMING'' = Some (map_of
     [(''min_delay_between_views'', ''30''), (''max_delay_between_views'', ''120''),
      (''min_watch_duration'', ''30''), (''max_watch_duration'', ''180''),
      (''page_load_timeout'', ''30'')])"
  "cp_defaults (config default_manager) = Map.empty"
  by (simp_all add: default_manager_def new_config_manager_def load_config_def
        create_default_config_def)

lemma default_manager_proxy_file:
  "cp_get (config default_manager) ''GENERAL'' ''proxy_file'' = Inr ''proxies.txt''"
  by (simp add: default_manager_def new_config_manager_def load_config_def
        create_default_config_def cp_get_def Let_def py_lower_def py_lower_char_def
        plain_interpolation_def)

lemma default_manager_timeout:
  "cp_get (config default_manager) ''TIMING'' ''page_load_timeout'' = Inr ''30''"
  by (simp add: default_manager_def new_config_manager_def load_config_def
        create_default_config_def cp_get_def Let_def py_lower_def py_lower_char_def
        plain_interpolation_def)

theorem typed_accessors_fall_back_witness:
  "cp_sections (config default_manager) ''NOPE'' = None
   \<and> get_int default_manager ''NOPE'' ''page_load_timeout'' 7 = 7
   \<and> (cp_defaults (config default_manager) ++ map_of
         [(''min_delay_between_views'', ''30''), (''max_delay_between_views'', ''120''),
          (''min_watch_duration'', ''30''), (''max_watch_duration'', ''180''),
          (''page_load_timeout'', ''30'')]) (py_lower ''timeout'') = None
   \<and> get_bool default_manager ''TIMING'' ''timeout'' True = True
   \<and> cp_get (config default_manager) ''GENERAL'' ''proxy_file'' = Inr ''proxies.txt''
   \<and> get_int default_manager ''GENERAL'' ''proxy_file'' 5 = 5
   \<and> get_bool default_manager ''GENERAL'' ''proxy_file'' False = False
   \<and> get_float integer_float default_manager ''GENERAL'' ''proxy_file'' PyNaN = PyNaN
   \<and> cp_get (config default_manager) ''TIMING'' ''page_load_timeout'' = Inr ''30''
   \<and> get_int default_manager ''TIMING'' ''page_load_timeout'' 0 = 30
   \<and> get_float integer_float default_manager ''TIMING'' ''page_load_timeout'' PyNaN = PyFloat 30"
proof -
  have n: "py_int ''proxies.txt'' = None" "py_int ''30'' = Some 30"
    by (simp_all add: py_int_def py_strip_def is_space_def int_unsigned_def is_digit_def
          digit_val_def int_max_str_digits_def)
  have b: "convert_to_boolean ''proxies.txt'' = Inl ValueError"
    by (simp add: convert_to_boolean_def py_lower_def py_lower_char_def)
  have k: "(cp_defaults (config default_manager) ++ map_of
         [(''min_delay_between_views'', ''30''), (''max_delay_between_views'', ''120''),
          (''min_watch_duration'', ''30''), (''max_watch_duration'', ''180''),
          (''page_load_timeout'', ''30'')]) (py_lower ''timeout'') = None"
    by (simp add: default_manager_sections py_lower_def py_lower_char_def)
  from typed_accessors_fall_back[where cm = default_manager and s = "''NOPE''"
         and k = "''page_load_timeout''" and fi = 7]
    typed_accessors_fall_back[where cm = default_manager and s = "''TIMING''"
         and k = "''timeout''" and fb = True
         and sec = "map_of
           [(''min_delay_between_views'', ''30''), (''max_delay_between_views'', ''120''),
            (''min_watch_duration'', ''30''), (''max_watch_duration'', ''180''),
            (''page_load_timeout'', ''30'')]"]
    typed_accessors_fall_back[where cm = default_manager and s = "''GENERAL''"
         and k = "''proxy_file''" and v = "''proxies.txt''" and fi = 5 and fb = False
         and fl = integer_float and ff = PyNaN]
    typed_accessors_fall_back[where cm = default_manager and s = "''TIMING''"
         and k = "''page_load_timeout''" and v = "''30''" and fi = 0
         and fl = integer_float and ff = PyNaN]
    default_manager_sections default_manager_proxy_file default_manager_timeout n b k
  show ?thesis by (simp add: integer_float_def)
qed





section \<open>The view counters\<close>

lemma get_random_proxy_no_proxies:
  "proxies pm = [] \<Longrightarrow> get_random_proxy w t pm = (None, t, pm)"
  by (simp add: get_random_proxy_return get_random_proxy_step_def)

lemma get_random_proxy_no_file:
  "get_random_proxy w t (new_proxy_manager name (Inl e)) =
     (None, t, new_proxy_manager name (Inl e))"
  by (rule get_random_proxy_no_proxies) (simp add: new_proxy_manager_def load_proxies_def)

lemma view_iteration_config: "bot_config (view_iteration w u n b i) = bot_config b"
  by (cases "get_random_proxy (network w) (clock b) (bot_proxy_manager b)")
     (auto simp: view_iteration_def Let_def create_browser_def close_browser_def
        split: option.splits)

text \<open>
  Every pass through the loop counts the view once, as a success or as a failure, and
  once more as a failure if the sleep that follows raises.
\<close>

lemma view_iteration_counts:
  "success_count (view_iteration w u n b i) + failed_count (view_iteration w u n b i) =
     success_count b + failed_count b + 1
       + (if int i < n - 1 \<and> sleep w (get_random_delay w (bot_config b) i) \<noteq> None
          then 1 else 0)"
  by (cases "get_random_proxy (network w) (clock b) (bot_proxy_manager b)")
     (auto simp: view_iteration_def Let_def create_browser_def close_browser_def
        split: option.splits)

lemma foldl_view_counts:
  "(\<forall>i \<in> set xs. int i < n - 1 \<longrightarrow> sleep w (get_random_delay w (bot_config b) i) = None) \<Longrightarrow>
   success_count (foldl (view_iteration w u n) b xs)
     + failed_count (foldl (view_iteration w u n) b xs) =
   success_count b + failed_count b + int (length xs)"
  by (induction xs arbitrary: b) (auto simp: view_iteration_counts view_iteration_config)

text \<open>When no sleep between views raises, the counters of a fresh bot add up to the target.\<close>

lemma generate_views_counts:
  assumes "\<forall>i. int i < n - 1 \<longrightarrow> sleep w (get_random_delay w (bot_config b) i) = None"
    and "0 \<le> n" and "success_count b = 0" and "failed_count b = 0"
  shows "success_count (snd (generate_views w u n b))
           + failed_count (snd (generate_views w u n b)) = n"
    and "fst (generate_views w u n b) = success_count (snd (generate_views w u n b))"
  using assms foldl_view_counts[of "[0..<nat n]" n w b u]
  by (simp_all add: generate_views_def Let_def)

lemma negative_delay_proxy_file:
  "get_proxy_file negative_delay_manager = Some ''proxies.txt''"
  by (simp add: get_proxy_file_def get_def cp_get_conv_def cp_get_def negative_delay_manager_def
        negative_delay_file_def new_config_manager_def load_config_def)

lemma negative_delay_bot_constructed:
  "new_youtube_bot (\<lambda>name. Inl FileNotFoundError) None negative_delay_manager =
     Inr negative_delay_bot"
  by (simp add: new_youtube_bot_def negative_delay_bot_def fresh_bot_def
        negative_delay_proxy_file)

text \<open>Under this configuration the delay before the next view is negative and the sleep raises.\<close>

lemma negative_delay_drawn:
  "get_random_delay quiet_world negative_delay_manager i = PyFloat (- 2)"
  "sleep quiet_world (PyFloat (- 2)) = Some ValueError"
  "get_random_watch_duration quiet_world negative_delay_manager i = PyFloat 30"
  "sleep quiet_world (PyFloat 30) = None"
  by (simp_all add: get_random_delay_def get_random_watch_duration_def quiet_world_def
        get_min_delay_def get_min_watch_duration_def get_float_def cp_get_conv_def cp_get_def
        negative_delay_manager_def negative_delay_file_def new_config_manager_def load_config_def
        Let_def py_lower_def py_lower_char_def plain_interpolation_def convert_to_float_def
        integer_float_def py_int_def py_strip_def is_space_def int_unsigned_def is_digit_def
        digit_val_def int_max_str_digits_def example_sleep_def)

text \<open>Two views on the bot with the negative delays, in the quiet world.\<close>

lemma generate_views_negative_delay:
  "success_count negative_delay_bot = 0 \<and> failed_count negative_delay_bot = 0
   \<and> generate_views quiet_world ''https://www.youtube.com/watch?v=x'' 2 negative_delay_bot =
        (2, negative_delay_bot\<lparr>success_count := 2, failed_count := 1\<rparr>)"
proof -
  have u: "[0..<(2::nat)] = [0, 1]"
    by (simp add: upt_rec)
  have c: "bot_config negative_delay_bot = negative_delay_manager"
    "bot_proxy_manager negative_delay_bot =
       new_proxy_manager (Some ''proxies.txt'') (Inl FileNotFoundError)"
    "clock negative_delay_bot = 0"
    "success_count negative_delay_bot = 0" "failed_count negative_delay_bot = 0"
    by (simp_all add: negative_delay_bot_def fresh_bot_def)
  have q: "chrome quiet_world = (\<lambda>i. None)" "page quiet_world = (\<lambda>i. None)"
    "video quiet_world = (\<lambda>i. Inr True)" "quit quiet_world = (\<lambda>i. None)"
    by (simp_all add: quiet_world_def)
  show ?thesis
    by (simp add: generate_views_def Let_def u view_iteration_def get_random_proxy_no_file
          create_browser_def simulate_view_def close_browser_def c q negative_delay_drawn)
qed

text \<open>
  Claim C3. After \<open>generate_views(video_url, n)\<close> on a fresh bot the two counters add up
  to \<open>n\<close>, and the returned value is \<open>success_count\<close>. The code breaks the first part:
  with two views requested and a configuration whose delays are negative, the first view
  is counted as a success and then, when \<open>time.sleep\<close> rejects the delay, by the handler
  around the loop body as a failure too; the second is a success. Two views end with
  \<open>Success: 2, Failed: 1\<close>.
\<close>

theorem generate_views_double_count:
  "success_count negative_delay_bot = 0 \<and> failed_count negative_delay_bot = 0
   \<and> fst (generate_views quiet_world ''https://www.youtube.com/watch?v=x'' 2 negative_delay_bot) = 2
   \<and> success_count
         (snd (generate_views quiet_world ''https://www.youtube.com/watch?v=x'' 2 negative_delay_bot))
       = 2
   \<and> failed_count
         (snd (generate_views quiet_world ''https://www.youtube.com/watch?v=x'' 2 negative_delay_bot))
       = 1"
  using generate_views_negative_delay by simp

section \<open>The exit status\<close>






text \<open>
  The whole run on that configuration file, from the command line to the counters: exit
  status 0, two successes and one failure for two views.
\<close>

lemma main_negative_delay:
  "main (quiet_env\<lparr>config_files := (\<lambda>name. negative_delay_file)\<rparr>) (Inr example_args) =
     (0, Some (negative_delay_bot\<lparr>success_count := 2, failed_count := 1\<rparr>))"
proof -
  have b: "new_youtube_bot (\<lambda>name. Inl FileNotFoundError) None
             (new_config_manager plain_interpolation ''config.ini'' negative_delay_file) =
           Inr negative_delay_bot"
    using negative_delay_bot_constructed by (simp add: negative_delay_manager_def)
  show ?thesis
    using generate_views_negative_delay
    by (simp add: main_def quiet_env_def offline_env_def example_args_def Let_def b)
qed

end
